theory Spec2Isabelle
  imports Complex_Main
begin

section \<open>Scalars\<close>

text \<open>
  The scalar \<^verbatim>\<open>btScalar\<close> of the suspension is modelled as \<^typ>\<open>real\<close>: comparisons and
  arithmetic are exact.
\<close>

type_synonym btScalar = real








section \<open>The loading screen (src/loadingscreen.cpp)\<close>





section \<open>The suspension (src/physics/carsuspension.h)\<close>

type_synonym btVector3 = "btScalar \<times> btScalar \<times> btScalar"
type_synonym btQuaternion = "btScalar \<times> btScalar \<times> btScalar \<times> btScalar"

text \<open>
  \<^verbatim>\<open>struct CarSuspensionInfo\<close>, field by field. The class template \<^verbatim>\<open>LinearInterp\<close>
  (linearinterp.h) is not part of the sources at hand; the type of the two factor
  tables is the type parameter \<open>'c\<close>.
\<close>

record 'c CarSuspensionInfo =
  spring_constant :: btScalar
  anti_roll :: btScalar
  bounce :: btScalar
  rebound :: btScalar
  travel :: btScalar
  damper_factors :: 'c
  spring_factors :: 'c
  position :: btVector3
  steering_angle :: btScalar
  ackermann :: btScalar
  camber :: btScalar
  caster :: btScalar
  toe :: btScalar
  inv_mass :: btScalar

text \<open>The data members of \<^verbatim>\<open>class CarSuspension\<close>, in the order of their declaration.\<close>

record 'c CarSuspension =
  info :: "'c CarSuspensionInfo"
  orientation_ext :: btQuaternion
  steering_axis :: btVector3
  orientation :: btQuaternion
  position :: btVector3
  steering_angle :: btScalar
  spring_force :: btScalar
  damp_force :: btScalar
  force :: btScalar
  overtravel :: btScalar
  displacement :: btScalar
  last_displacement :: btScalar
  wheel_force :: btScalar
  wheel_contact :: btScalar

subsection \<open>Accessors defined in the header\<close>

definition GetAntiRoll :: "'c CarSuspension \<Rightarrow> btScalar" where
  "GetAntiRoll s = anti_roll (info s)"

definition GetMaxSteeringAngle :: "'c CarSuspension \<Rightarrow> btScalar" where
  "GetMaxSteeringAngle s = CarSuspensionInfo.steering_angle (info s)"

definition GetWheelForce :: "'c CarSuspension \<Rightarrow> btScalar" where
  "GetWheelForce s = wheel_force s"

definition GetForce :: "'c CarSuspension \<Rightarrow> btScalar" where
  "GetForce s = force s"

definition GetOvertravel :: "'c CarSuspension \<Rightarrow> btScalar" where
  "GetOvertravel s = overtravel s"

definition GetDisplacement :: "'c CarSuspension \<Rightarrow> btScalar" where
  "GetDisplacement s = displacement s"

definition GetDisplacementFraction :: "'c CarSuspension \<Rightarrow> btScalar" where
  "GetDisplacementFraction s = displacement s / travel (info s)"

subsection \<open>Serialization\<close>

text \<open>
  \<^verbatim>\<open>template <class Serializer> bool Serialize(Serializer & s)\<close>. The macro
  \<^verbatim>\<open>_SERIALIZE_\<close> (macros.h) and the serializer classes are not part of the sources at
  hand. One use \<^verbatim>\<open>_SERIALIZE_(s, x)\<close> of the macro is the parameter \<open>field\<close>: given the
  serializer, the name of the member and its value, it returns whether the member was
  processed, the serializer afterwards and the member afterwards (a writing serializer
  leaves the member as it is, a reading one overwrites it). When a member is not
  processed the method returns \<^verbatim>\<open>false\<close> at once, which is the only way for a method
  that ends in \<^verbatim>\<open>return true\<close> to report a failure.
\<close>

definition Serialize ::
  "('s \<Rightarrow> string \<Rightarrow> btScalar \<Rightarrow> bool \<times> 's \<times> btScalar) \<Rightarrow> 's \<Rightarrow> 'c CarSuspension
     \<Rightarrow> bool \<times> 's \<times> 'c CarSuspension"
where
  "Serialize field s c =
     (case field s ''steering_angle'' (steering_angle c) of (ok1, s1, v1) \<Rightarrow>
        let c1 = c\<lparr>steering_angle := v1\<rparr> in
        if \<not> ok1 then (False, s1, c1) else
     (case field s1 ''displacement'' (displacement c1) of (ok2, s2, v2) \<Rightarrow>
        let c2 = c1\<lparr>displacement := v2\<rparr> in
        if \<not> ok2 then (False, s2, c2) else
     (case field s2 ''last_displacement'' (last_displacement c2) of (ok3, s3, v3) \<Rightarrow>
        let c3 = c2\<lparr>last_displacement := v3\<rparr> in
        if \<not> ok3 then (False, s3, c3) else
     (case field s3 ''force'' (force c3) of (ok4, s4, v4) \<Rightarrow>
        let c4 = c3\<lparr>force := v4\<rparr> in
        if \<not> ok4 then (False, s4, c4) else
        (True, s4, c4)))))"

text \<open>
  Modelled from the spec: the serializer classes that instantiate \<^verbatim>\<open>Serializer\<close> are
  missing. After the spec (6) the serialized state is a flat ordered record; here it is
  a list of named values. The writing serializer appends the member to the record and
  never fails; the reading one takes the next entry of the record as the member's new
  value and fails when the record is exhausted.
\<close>

definition write_field ::
  "(string \<times> btScalar) list \<Rightarrow> string \<Rightarrow> btScalar \<Rightarrow> bool \<times> (string \<times> btScalar) list \<times> btScalar"
where
  "write_field out name v = (True, out @ [(name, v)], v)"

definition read_field ::
  "(string \<times> btScalar) list \<Rightarrow> string \<Rightarrow> btScalar \<Rightarrow> bool \<times> (string \<times> btScalar) list \<times> btScalar"
where
  "read_field inp name v =
     (case inp of [] \<Rightarrow> (False, [], v) | (_, x) # rest \<Rightarrow> (True, rest, x))"

text \<open>
  What the round trip asks of a serializer, for any type of serializer. A writing
  serializer processes every member, leaves the member as it is and appends it, under
  its name, to what it has written so far; a reading serializer that still has an
  unread entry processes the member and sets it to the value of the next entry.
\<close>

definition appends_member ::
  "('s \<Rightarrow> string \<Rightarrow> btScalar \<Rightarrow> bool \<times> 's \<times> btScalar) \<Rightarrow> ('s \<Rightarrow> (string \<times> btScalar) list) \<Rightarrow> bool"
where
  "appends_member wr written =
     (\<forall>s n v. \<exists>s'. wr s n v = (True, s', v) \<and> written s' = written s @ [(n, v)])"

definition takes_next_entry ::
  "('t \<Rightarrow> string \<Rightarrow> btScalar \<Rightarrow> bool \<times> 't \<times> btScalar) \<Rightarrow> ('t \<Rightarrow> (string \<times> btScalar) list) \<Rightarrow> bool"
where
  "takes_next_entry rd unread =
     (\<forall>t n v m x rest. unread t = (m, x) # rest \<longrightarrow>
        (\<exists>t'. rd t n v = (True, t', x) \<and> unread t' = rest))"

text \<open>The flat ordered record of the run-time state of a suspension.\<close>

definition serialized_state :: "'c CarSuspension \<Rightarrow> (string \<times> btScalar) list" where
  "serialized_state c =
     [(''steering_angle'', steering_angle c), (''displacement'', displacement c),
      (''last_displacement'', last_displacement c), (''force'', force c)]"

section \<open>Parts of the suspension whose code is not in the sources at hand\<close>

subsection \<open>The factor tables\<close>

text \<open>
  Modelled from the spec: the class template \<^verbatim>\<open>LinearInterp\<close> (linearinterp.h), the
  type of \<^verbatim>\<open>damper_factors\<close> and \<^verbatim>\<open>spring_factors\<close>, is missing. The spec (4.1) calls
  it a piecewise curve: an ordered sequence of control points \<open>(x, y)\<close> with \<open>x\<close>
  strictly increasing. A table without points is a constant function; the spec does not
  say which constant, so the table carries it as \<open>empty_value\<close>.
\<close>

record LinearInterp =
  points :: "(btScalar \<times> btScalar) list"
  empty_value :: btScalar

text \<open>
  Modelled from the spec: the evaluation of a \<^verbatim>\<open>LinearInterp\<close> table is missing. After
  the spec (4.1) it returns the linear interpolation between the two control points
  that bracket \<open>x\<close>, the first or the last \<open>y\<close> outside the domain of the table, and a
  constant for a table of no or one point. The search runs over the points from the
  left.
\<close>

fun interpolate :: "btScalar \<Rightarrow> (btScalar \<times> btScalar) list \<Rightarrow> btScalar \<Rightarrow> btScalar" where
  "interpolate d [] x = d"
| "interpolate d [(x0, y0)] x = y0"
| "interpolate d ((x0, y0) # (x1, y1) # ps) x =
     (if x \<le> x0 then y0
      else if x < x1 then y0 + (x - x0) * (y1 - y0) / (x1 - x0)
      else interpolate d ((x1, y1) # ps) x)"

definition Evaluate :: "LinearInterp \<Rightarrow> btScalar \<Rightarrow> btScalar" where
  "Evaluate c x = interpolate (empty_value c) (points c) x"

text \<open>
  The two notions the statement about \<open>Evaluate\<close> is written in: the straight line
  through two control points, and a table whose \<open>x\<close> values increase strictly.
\<close>

definition lerp :: "btScalar \<times> btScalar \<Rightarrow> btScalar \<times> btScalar \<Rightarrow> btScalar \<Rightarrow> btScalar" where
  "lerp p q x = snd p + (x - fst p) * (snd q - snd p) / (fst q - fst p)"

definition strictly_increasing :: "(btScalar \<times> btScalar) list \<Rightarrow> bool" where
  "strictly_increasing ps = sorted_wrt (<) (map fst ps)"

subsection \<open>A sample suspension\<close>

text \<open>
  The suspension of the spec's scenario (8): spring constant 50000, travel 0.2, no
  damping, displaced by 0.1.
\<close>

definition sample_info :: "unit CarSuspensionInfo" where
  "sample_info =
     \<lparr>spring_constant = 50000, anti_roll = 0, bounce = 0, rebound = 0, travel = 0.2,
      damper_factors = (), spring_factors = (), position = (0, 0, 0), steering_angle = 30,
      ackermann = 0, camber = 0, caster = 0, toe = 0, inv_mass = 0.05\<rparr>"

definition sample_suspension :: "unit CarSuspension" where
  "sample_suspension =
     \<lparr>info = sample_info, orientation_ext = (0, 0, 0, 1), steering_axis = (0, 0, 1),
      orientation = (0, 0, 0, 1), position = (0, 0, 0), steering_angle = 0,
      spring_force = 0, damp_force = 0, force = 0, overtravel = 0, displacement = 0.1,
      last_displacement = 0.1, wheel_force = 0, wheel_contact = 0\<rparr>"

section \<open>Properties of the loading screen\<close>




section \<open>Properties of the serialization\<close>

lemma Serialize_writes:
  assumes "appends_member wr written"
  shows "\<exists>s'. Serialize wr s c = (True, s', c) \<and> written s' = written s @ serialized_state c"
proof -
  from assms obtain s1 where 1: "wr s ''steering_angle'' (steering_angle c) = (True, s1, steering_angle c)"
    "written s1 = written s @ [(''steering_angle'', steering_angle c)]"
    unfolding appends_member_def by blast
  from assms obtain s2 where 2: "wr s1 ''displacement'' (displacement c) = (True, s2, displacement c)"
    "written s2 = written s1 @ [(''displacement'', displacement c)]"
    unfolding appends_member_def by blast
  from assms obtain s3 where 3: "wr s2 ''last_displacement'' (last_displacement c) = (True, s3, last_displacement c)"
    "written s3 = written s2 @ [(''last_displacement'', last_displacement c)]"
    unfolding appends_member_def by blast
  from assms obtain s4 where 4: "wr s3 ''force'' (force c) = (True, s4, force c)"
    "written s4 = written s3 @ [(''force'', force c)]"
    unfolding appends_member_def by blast
  have "Serialize wr s c = (True, s4, c)"
    using 1(1) 2(1) 3(1) 4(1) by (simp add: Serialize_def)
  moreover have "written s4 = written s @ serialized_state c"
    using 1(2) 2(2) 3(2) 4(2) by (simp add: serialized_state_def)
  ultimately show ?thesis by blast
qed

lemma Serialize_reads:
  assumes "takes_next_entry rd unread"
    and "unread t = serialized_state c @ rest"
  shows "\<exists>t'. Serialize rd t c0 =
           (True, t', c0\<lparr>steering_angle := steering_angle c, displacement := displacement c,
                         last_displacement := last_displacement c, force := force c\<rparr>)
         \<and> unread t' = rest"
proof -
  have u: "unread t = (''steering_angle'', steering_angle c) # (''displacement'', displacement c) #
      (''last_displacement'', last_displacement c) # (''force'', force c) # rest"
    using assms(2) by (simp add: serialized_state_def)
  from assms(1) u obtain t1 where 1: "rd t ''steering_angle'' (steering_angle c0) = (True, t1, steering_angle c)"
    "unread t1 = (''displacement'', displacement c) #
      (''last_displacement'', last_displacement c) # (''force'', force c) # rest"
    unfolding takes_next_entry_def by blast
  from assms(1) 1(2) obtain t2 where 2: "rd t1 ''displacement'' (displacement c0) = (True, t2, displacement c)"
    "unread t2 = (''last_displacement'', last_displacement c) # (''force'', force c) # rest"
    unfolding takes_next_entry_def by blast
  from assms(1) 2(2) obtain t3 where 3: "rd t2 ''last_displacement'' (last_displacement c0) = (True, t3, last_displacement c)"
    "unread t3 = (''force'', force c) # rest"
    unfolding takes_next_entry_def by blast
  from assms(1) 3(2) obtain t4 where 4: "rd t3 ''force'' (force c0) = (True, t4, force c)"
    "unread t4 = rest"
    unfolding takes_next_entry_def by blast
  have "Serialize rd t c0 =
           (True, t4, c0\<lparr>steering_angle := steering_angle c, displacement := displacement c,
                         last_displacement := last_displacement c, force := force c\<rparr>)"
    using 1(1) 2(1) 3(1) 4(1) by (simp add: Serialize_def)
  with 4(2) show ?thesis by blast
qed

text \<open>
  Claim C8. With any writing serializer, \<open>Serialize\<close> succeeds, leaves the suspension
  as it is and appends exactly the four members \<open>steering_angle\<close>, \<open>displacement\<close>,
  \<open>last_displacement\<close>, \<open>force\<close>, in this order. With any reading serializer whose
  unread input starts with this record, \<open>Serialize\<close> succeeds, consumes exactly the
  record, sets these four members to the values of the serialized suspension and
  changes no other member; read back into the serialized suspension itself, it gives
  that suspension again.
\<close>

theorem Serialize_round_trip:
  assumes "appends_member wr written"
    and "takes_next_entry rd unread"
  shows "(\<exists>s'. Serialize wr s c = (True, s', c) \<and> written s' = written s @ serialized_state c)
       \<and> (unread t = serialized_state c @ rest \<longrightarrow>
            (\<exists>t'. Serialize rd t c0 =
                     (True, t', c0\<lparr>steering_angle := steering_angle c, displacement := displacement c,
                                   last_displacement := last_displacement c, force := force c\<rparr>)
                  \<and> unread t' = rest)
            \<and> (\<exists>t'. Serialize rd t c = (True, t', c) \<and> unread t' = rest))"
proof -
  have same: "c\<lparr>steering_angle := steering_angle c, displacement := displacement c,
               last_displacement := last_displacement c, force := force c\<rparr> = c"
    by simp
  show ?thesis
    using Serialize_writes [OF assms(1), of s c]
      Serialize_reads [OF assms(2), of t c rest c0]
      Serialize_reads [OF assms(2), of t c rest c]
    unfolding same by blast
qed

theorem Serialize_round_trip_witness:
  "appends_member write_field (\<lambda>s. s)
   \<and> takes_next_entry read_field (\<lambda>t. t)
   \<and> Serialize write_field [] sample_suspension =
       (True,
        [(''steering_angle'', 0), (''displacement'', 1 / 10), (''last_displacement'', 1 / 10),
         (''force'', 0)],
        sample_suspension)
   \<and> Serialize read_field
        [(''steering_angle'', 0), (''displacement'', 1 / 10), (''last_displacement'', 1 / 10),
         (''force'', 0)]
        (sample_suspension\<lparr>steering_angle := 1 / 2, displacement := 0, force := 7\<rparr>) =
       (True, [], sample_suspension)"
proof -
  have wr: "appends_member write_field (\<lambda>s. s)"
    by (simp add: appends_member_def write_field_def)
  have rd: "takes_next_entry read_field (\<lambda>t. t)"
    by (simp add: takes_next_entry_def read_field_def)
  show ?thesis
    using wr rd
      Serialize_round_trip [OF wr rd, of "[]" sample_suspension
        "serialized_state sample_suspension" "[]"
        "sample_suspension\<lparr>steering_angle := 1 / 2, displacement := 0, force := 7\<rparr>"]
    by (simp add: serialized_state_def sample_suspension_def)
qed

section \<open>Properties of the factor tables\<close>

lemma interpolate_first:
  "x \<le> fst p \<Longrightarrow> interpolate d (p # ps) x = snd p"
  by (cases p; cases ps) auto

lemma interpolate_last:
  "sorted_wrt (<) (map fst ps) \<Longrightarrow> ps \<noteq> [] \<Longrightarrow> fst (last ps) \<le> x \<Longrightarrow>
   interpolate d ps x = snd (last ps)"
proof (induction d ps x rule: interpolate.induct)
  case (3 d x0 y0 x1 y1 ps x)
  have "x1 \<le> fst (last ((x1, y1) # ps))"
    using "3.prems"(1) by (cases ps) (auto simp: less_imp_le)
  then show ?case using 3 by auto
qed auto

lemma interpolate_segment:
  "sorted_wrt (<) (map fst ps) \<Longrightarrow> Suc i < length ps \<Longrightarrow>
   fst (ps ! i) \<le> x \<Longrightarrow> x \<le> fst (ps ! Suc i) \<Longrightarrow>
   interpolate d ps x = lerp (ps ! i) (ps ! Suc i) x"
proof (induction d ps x arbitrary: i rule: interpolate.induct)
  case (3 d x0 y0 x1 y1 ps x)
  show ?case
  proof (cases i)
    case 0
    then show ?thesis using "3.prems"
      by (cases ps) (auto simp: lerp_def)
  next
    case (Suc j)
    have "x1 \<le> fst (((x1, y1) # ps) ! j)"
      using "3.prems"(1,2) Suc by (cases j) (auto simp: less_imp_le)
    then show ?thesis using 3 Suc by auto
  qed
qed auto

lemma interpolate_single: "length ps = 1 \<Longrightarrow> interpolate d ps x = snd (hd ps)"
  by (cases ps) (auto simp: interpolate_first)

text \<open>
  Claim C9. For a table whose \<open>x\<close> values increase strictly, \<open>Evaluate\<close> returns the
  linear interpolation between two neighbouring control points whenever \<open>x\<close> lies
  between them, the first \<open>y\<close> for \<open>x\<close> at or below the first control point and the
  last \<open>y\<close> for \<open>x\<close> at or above the last one; a table of no or one point is a
  constant function. \<open>Evaluate\<close> is a total function, so it never fails.
\<close>

theorem Evaluate_piecewise_linear:
  assumes "strictly_increasing (points c)"
  shows "(\<forall>i. Suc i < length (points c) \<and> fst (points c ! i) \<le> x \<and> x \<le> fst (points c ! Suc i)
            \<longrightarrow> Evaluate c x = lerp (points c ! i) (points c ! Suc i) x)
       \<and> (points c \<noteq> [] \<and> x \<le> fst (hd (points c)) \<longrightarrow> Evaluate c x = snd (hd (points c)))
       \<and> (points c \<noteq> [] \<and> fst (last (points c)) \<le> x \<longrightarrow> Evaluate c x = snd (last (points c)))
       \<and> (points c = [] \<longrightarrow> Evaluate c x = empty_value c)
       \<and> (length (points c) = 1 \<longrightarrow> Evaluate c x = snd (hd (points c)))"
proof -
  have sorted: "sorted_wrt (<) (map fst (points c))"
    using assms by (simp add: strictly_increasing_def)
  have inside: "\<forall>i. Suc i < length (points c) \<and> fst (points c ! i) \<le> x \<and> x \<le> fst (points c ! Suc i)
            \<longrightarrow> Evaluate c x = lerp (points c ! i) (points c ! Suc i) x"
    using interpolate_segment [OF sorted] by (simp add: Evaluate_def)
  have below: "points c \<noteq> [] \<and> x \<le> fst (hd (points c)) \<longrightarrow> Evaluate c x = snd (hd (points c))"
    by (cases "points c") (simp_all add: Evaluate_def interpolate_first)
  have above: "points c \<noteq> [] \<and> fst (last (points c)) \<le> x \<longrightarrow> Evaluate c x = snd (last (points c))"
    using interpolate_last [OF sorted] by (simp add: Evaluate_def)
  have none: "points c = [] \<longrightarrow> Evaluate c x = empty_value c"
    by (simp add: Evaluate_def)
  have one: "length (points c) = 1 \<longrightarrow> Evaluate c x = snd (hd (points c))"
    using interpolate_single by (simp add: Evaluate_def)
  from inside below above none one show ?thesis by blast
qed

theorem Evaluate_piecewise_linear_witness:
  "strictly_increasing [(0, 1), (1, 3), (2, 2)]
   \<and> Evaluate \<lparr>points = [(0, 1), (1, 3), (2, 2)], empty_value = 7\<rparr> (3 / 2) = lerp (1, 3) (2, 2) (3 / 2)
   \<and> lerp (1, 3) (2, 2) (3 / 2) = 5 / 2
   \<and> Evaluate \<lparr>points = [(0, 1), (1, 3), (2, 2)], empty_value = 7\<rparr> (- 1) = 1
   \<and> Evaluate \<lparr>points = [(0, 1), (1, 3), (2, 2)], empty_value = 7\<rparr> 5 = 2
   \<and> strictly_increasing []
   \<and> Evaluate \<lparr>points = [], empty_value = 7\<rparr> 5 = 7
   \<and> strictly_increasing [(4, 9)]
   \<and> Evaluate \<lparr>points = [(4, 9)], empty_value = 7\<rparr> 5 = 9"
proof -
  let ?c = "\<lparr>points = [(0, 1), (1, 3), (2, 2)], empty_value = 7\<rparr> :: LinearInterp"
  have inc: "strictly_increasing (points ?c)"
    by (simp add: strictly_increasing_def)
  have inc0: "strictly_increasing (points \<lparr>points = [], empty_value = 7\<rparr>)"
    by (simp add: strictly_increasing_def)
  have inc1: "strictly_increasing (points \<lparr>points = [(4, 9)], empty_value = 7\<rparr>)"
    by (simp add: strictly_increasing_def)
  have "Suc 1 < length (points ?c) \<and> fst (points ?c ! 1) \<le> 3 / 2 \<and> 3 / 2 \<le> fst (points ?c ! Suc 1)
          \<longrightarrow> Evaluate ?c (3 / 2) = lerp (points ?c ! 1) (points ?c ! Suc 1) (3 / 2)"
    using Evaluate_piecewise_linear [OF inc, of "3 / 2"] by blast
  then have mid: "Evaluate ?c (3 / 2) = lerp (1, 3) (2, 2) (3 / 2)"
    by simp
  have low: "Evaluate ?c (- 1) = 1"
    using Evaluate_piecewise_linear [OF inc, of "- 1"] by simp
  have high: "Evaluate ?c 5 = 2"
    using Evaluate_piecewise_linear [OF inc, of 5] by simp
  have none: "Evaluate \<lparr>points = [], empty_value = 7\<rparr> 5 = 7"
    using Evaluate_piecewise_linear [OF inc0, of 5] by simp
  have one: "Evaluate \<lparr>points = [(4, 9)], empty_value = 7\<rparr> 5 = 9"
    using Evaluate_piecewise_linear [OF inc1, of 5] by simp
  show ?thesis
    using inc inc0 inc1 mid low high none one by (simp add: lerp_def)
qed

end
